theory Spec2Isabelle
  imports Complex_Main
begin

section \<open>The CSG combinator of fcpw: \<^verbatim>\<open>src/core/csg_node.inl\<close>\<close>

text \<open>
  A shallow embedding of \<^verbatim>\<open>CsgNode<DIM>\<close>. Conventions of the embedding:
  \<^item> a C++ \<^verbatim>\<open>float\<close> is a \<^typ>\<open>real\<close>: comparisons, \<^verbatim>\<open>std::min\<close> and the sign
    tests are those of the reals (no rounding, no NaN); the one place where a result
    beyond the largest float decides which branch is taken, the squared norm compared on
    lines 27-28, keeps its overflow to \<^verbatim>\<open>+inf\<close>;
  \<^item> a \<^verbatim>\<open>Vector<DIM>\<close> is the list of its components;
  \<^item> a reference parameter that the method writes (\<^verbatim>\<open>Ray& r\<close>,
    \<^verbatim>\<open>std::vector<Interaction>& is\<close>, \<^verbatim>\<open>BoundingSphere& s\<close>, \<^verbatim>\<open>Interaction& i\<close>) is
    returned, updated, beside the method's return value; the node itself is a read-only
    argument, as the methods are \<^verbatim>\<open>const\<close>;
  \<^item> the two children are \<^verbatim>\<open>Primitive<DIM>\<close> objects reached through virtual calls; a child
    is the record of its methods;
  \<^item> \<^verbatim>\<open>(int)is.size()\<close> is the length of the list as an unbounded integer.
\<close>

subsection \<open>Data model\<close>

type_synonym vec = "real list"

datatype BooleanOperation = Union_op | Intersection | Difference | None_op

datatype DistanceInfo = Exact | Bounded

text \<open>The fields of \<^verbatim>\<open>Interaction<DIM>\<close> that the node reads or writes.\<close>

record interaction =
  d :: real
  sign :: int
  n :: vec
  distanceInfo :: DistanceInfo

text \<open>\<^verbatim>\<open>Ray<DIM>\<close>: the node touches \<^verbatim>\<open>tMax\<close> only; origin and direction are carried along.\<close>

record ray =
  origin :: vec
  direction :: vec
  tMax :: real

record bounding_sphere =
  c :: vec
  r2 :: real

record bounding_box =
  pMin :: vec
  pMax :: vec
  isTight :: bool

text \<open>
  A child \<^verbatim>\<open>Primitive<DIM>\<close>, as the node uses it. \<open>prim_intersect r checkOcclusion countHits\<close>
  is \<^verbatim>\<open>intersect(r, is, checkOcclusion, countHits)\<close> called with a fresh vector: it gives
  the hit count, the ray and the vector after the call. \<open>prim_findClosestPoint s\<close> is
  \<^verbatim>\<open>findClosestPoint(s, i)\<close> called with a default-constructed interaction: it gives the
  returned flag, the sphere and the interaction after the call.
\<close>

record primitive =
  prim_boundingBox :: bounding_box
  prim_signedVolume :: real
  prim_intersect :: "ray \<Rightarrow> bool \<Rightarrow> bool \<Rightarrow> int \<times> ray \<times> interaction list"
  prim_findClosestPoint :: "bounding_sphere \<Rightarrow> bool \<times> bounding_sphere \<times> interaction"

record csg_node =
  left :: primitive
  right :: primitive
  operation :: BooleanOperation
  box :: bounding_box

text \<open>
  The one way a query of the node can go wrong: line 190 reads \<^verbatim>\<open>is[0]\<close>, and on an empty
  vector that read is undefined behaviour.
\<close>

datatype error = OutOfRange

subsection \<open>Constants and helpers declared outside \<^verbatim>\<open>src/\<close>\<close>

text \<open>
  Modelled from the spec: \<^verbatim>\<open>maxFloat\<close> and \<^verbatim>\<open>minFloat\<close> are declared outside \<^verbatim>\<open>src/\<close>; the
  spec calls \<^verbatim>\<open>maxFloat\<close> the sentinel "max float", here the largest finite single-precision
  value, and \<^verbatim>\<open>minFloat\<close> is its negation.
\<close>

definition maxFloat :: real where
  "maxFloat = 340282346638528859811704183484516925440"


text \<open>\<^verbatim>\<open>std::min(a, b)\<close> of the C++ standard library: \<^verbatim>\<open>(b < a) ? b : a\<close>.\<close>

definition std_min :: "real \<Rightarrow> real \<Rightarrow> real" where
  "std_min a b = (if b < a then b else a)"

text \<open>
  \<^verbatim>\<open>std::merge(first1, last1, first2, last2, out, comp)\<close> of the C++ standard library: an
  element of the second range is taken when \<open>cmp\<close> (the comparator) puts it
  before the head of the first.
\<close>

fun std_merge :: "('a \<Rightarrow> 'a \<Rightarrow> bool) \<Rightarrow> 'a list \<Rightarrow> 'a list \<Rightarrow> 'a list" where
  "std_merge cmp [] ys = ys"
| "std_merge cmp xs [] = xs"
| "std_merge cmp (x # xs) (y # ys) =
     (if cmp y x then y # std_merge cmp (x # xs) ys
      else x # std_merge cmp xs (y # ys))"

text \<open>
  Modelled from the spec: \<^verbatim>\<open>compareInteractions\<close> is declared outside \<^verbatim>\<open>src/\<close>; the spec
  orders interactions by ascending distance \<^verbatim>\<open>d\<close>.
\<close>

definition compareInteractions :: "interaction \<Rightarrow> interaction \<Rightarrow> bool" where
  "compareInteractions i j = (d i < d j)"







subsection \<open>Construction and the cached box (lines 3-50)\<close>




subsection \<open>Signed volume (lines 65-80)\<close>

text \<open>\<open>volume\<close> is \<^verbatim>\<open>BoundingBox::volume()\<close>, declared outside \<^verbatim>\<open>src/\<close>: a parameter.\<close>

definition signedVolume :: "(bounding_box \<Rightarrow> real) \<Rightarrow> csg_node \<Rightarrow> real" where
  "signedVolume volume node =
     (let boxVolume = volume (box node);
          boxVolume = (if boxVolume = 0 then maxFloat else boxVolume)
      in if operation node = Intersection then
           std_min boxVolume
             (std_min (prim_signedVolume (left node)) (prim_signedVolume (right node)))
         else if operation node = Difference then
           std_min boxVolume (prim_signedVolume (left node))
         else
           std_min boxVolume
             (prim_signedVolume (left node) + prim_signedVolume (right node)))"

subsection \<open>The parity merge (lines 82-130)\<close>

definition addInteraction :: "BooleanOperation \<Rightarrow> int \<Rightarrow> int \<Rightarrow> bool" where
  "addInteraction operation' before after =
     (if operation' = Intersection \<or> operation' = Difference
      then (before = 1 \<and> after = 2) \<or> (before = 2 \<and> after = 1)
      else (before = 0 \<and> after = 1) \<or> (before = 1 \<and> after = 0))"

text \<open>\<^verbatim>\<open>n *= -1\<close> on an interaction (lines 125 and 244).\<close>

definition flipNormal :: "interaction \<Rightarrow> interaction" where
  "flipNormal i = i\<lparr>n := map (\<lambda>x. x * (- 1)) (n i)\<rparr>"

text \<open>
  The \<^verbatim>\<open>while\<close> loop of lines 107-129. The cursor \<^verbatim>\<open>nLeft\<close> into \<^verbatim>\<open>isLeft\<close> is kept as
  the part of \<^verbatim>\<open>isLeft\<close> not yet consumed: \<^verbatim>\<open>nLeft == hitsLeft\<close> is \<open>restLeft = []\<close>,
  \<^verbatim>\<open>isLeft[nLeft]\<close> is \<open>hd restLeft\<close> and \<^verbatim>\<open>nLeft++\<close> is \<open>tl\<close> (that is, \<open>restLeft\<close> is
  \<open>drop nLeft isLeft\<close>); likewise on the right. The head of a list is read only on a
  branch where the list is not empty, as the source reads \<^verbatim>\<open>isLeft[nLeft]\<close> only where
  \<^verbatim>\<open>nLeft != hitsLeft\<close>. \<^verbatim>\<open>counterBefore\<close> is the value of \<open>counter\<close> the turn starts with.
\<close>

function computeInteractions_loop ::
  "BooleanOperation \<Rightarrow> interaction list \<Rightarrow> interaction list \<Rightarrow> bool \<Rightarrow> bool \<Rightarrow> int \<Rightarrow>
   interaction list \<Rightarrow> interaction list" where
  "computeInteractions_loop operation' restLeft restRight isLeftIntervalStart
       isRightIntervalStart counter out =
     (if restLeft \<noteq> [] \<or> restRight \<noteq> [] then
        if operation' = Intersection \<and> (restLeft = [] \<or> restRight = []) then out
        else if operation' = Difference \<and> restLeft = [] then out
        else if restRight = [] \<or> (restLeft \<noteq> [] \<and> d (hd restLeft) < d (hd restRight)) then
          computeInteractions_loop operation' (tl restLeft) restRight
            (\<not> isLeftIntervalStart) isRightIntervalStart
            (counter + (if isLeftIntervalStart then 1 else - 1))
            (if addInteraction operation' counter
                  (counter + (if isLeftIntervalStart then 1 else - 1))
             then out @ [hd restLeft] else out)
        else
          computeInteractions_loop operation' restLeft (tl restRight)
            isLeftIntervalStart (\<not> isRightIntervalStart)
            (counter + (if isRightIntervalStart then 1 else - 1))
            (if addInteraction operation' counter
                  (counter + (if isRightIntervalStart then 1 else - 1))
             then out @ [if operation' = Difference then flipNormal (hd restRight)
                         else hd restRight]
             else out)
      else out)"
  by pat_completeness auto
termination
  by (relation "measure (\<lambda>(operation', restLeft, restRight, ls, rs, counter, out).
        length restLeft + length restRight)") auto

declare computeInteractions_loop.simps [simp del]

definition computeInteractions ::
  "BooleanOperation \<Rightarrow> interaction list \<Rightarrow> interaction list \<Rightarrow> interaction list \<Rightarrow>
   interaction list" where
  "computeInteractions operation' isLeft isRight out =
     (let hitsLeft = int (length isLeft);
          hitsRight = int (length isRight);
          isLeftIntervalStart = (hitsLeft mod 2 = 0);
          isRightIntervalStart = (hitsRight mod 2 = (if operation' = Difference then 1 else 0));
          counter = (0::int);
          counter = (if \<not> isLeftIntervalStart then counter + 1 else counter);
          counter = (if \<not> isRightIntervalStart then counter + 1 else counter)
      in computeInteractions_loop operation' isLeft isRight isLeftIntervalStart
           isRightIntervalStart counter out)"

subsection \<open>Ray intersection (lines 132-194)\<close>

text \<open>
  Lines 188-190: \<^verbatim>\<open>hits = (int)is.size(); if (!countHits) r.tMax = is[0].d;\<close>. Nothing
  guards the read of \<^verbatim>\<open>is[0]\<close>.
\<close>

definition shrinkTMax ::
  "ray \<Rightarrow> bool \<Rightarrow> interaction list \<Rightarrow> error + (int \<times> ray \<times> interaction list)" where
  "shrinkTMax r countHits out =
     (if \<not> countHits then
        (case out of
           [] \<Rightarrow> Inl OutOfRange
         | i0 # _ \<Rightarrow> Inr (int (length out), r\<lparr>tMax := d i0\<rparr>, out))
      else Inr (int (length out), r, out))"

text \<open>
  \<open>boxIntersect\<close> is \<^verbatim>\<open>BoundingBox::intersect(r, tMin, tMax)\<close>, declared outside \<^verbatim>\<open>src/\<close>: a
  parameter (its two outputs are not used). The result is the returned hit count, the
  caller's ray and the caller's vector \<^verbatim>\<open>is\<close> after the call; \<^verbatim>\<open>is.clear()\<close> comes first,
  so every early return leaves the vector empty.
\<close>

definition intersect ::
  "(bounding_box \<Rightarrow> ray \<Rightarrow> bool) \<Rightarrow> csg_node \<Rightarrow> ray \<Rightarrow> bool \<Rightarrow> bool \<Rightarrow>
   error + (int \<times> ray \<times> interaction list)" where
  "intersect boxIntersect node r checkOcclusion countHits =
     (if boxIntersect (box node) r then
        case prim_intersect (left node) r False True of (hitsLeft, rLeft, isLeft) \<Rightarrow>
        if hitsLeft = 0 \<and> (operation node = Intersection \<or> operation node = Difference)
        then Inr (0, r, [])
        else
          case prim_intersect (right node) r False True of (hitsRight, rRight, isRight) \<Rightarrow>
          if hitsLeft = 0 \<and> hitsRight = 0 then Inr (0, r, [])
          else if hitsLeft > 0 \<and> hitsRight > 0 then
            if operation node = None_op
            then shrinkTMax r countHits (std_merge compareInteractions isLeft isRight)
            else shrinkTMax r countHits (computeInteractions (operation node) isLeft isRight [])
          else if hitsLeft > 0 then
            if operation node = Intersection then Inr (0, r, [])
            else shrinkTMax r countHits isLeft
          else if hitsRight > 0 then shrinkTMax r countHits isRight
          else shrinkTMax r countHits []
      else Inr (0, r, []))"

subsection \<open>Closest point (lines 196-277)\<close>

text \<open>
  \<open>boxOverlaps\<close> is \<^verbatim>\<open>BoundingBox::overlaps(s, d2Min, d2Max)\<close> and \<open>signedDistance\<close> is
  \<^verbatim>\<open>Interaction::signedDistance(x)\<close>; both are declared outside \<^verbatim>\<open>src/\<close>: parameters. The
  result is the returned flag, the caller's sphere and the caller's interaction after the
  call.
\<close>

text \<open>
  Lines 221-254, the block under \<^verbatim>\<open>if (foundLeft && foundRight)\<close>: the interaction the
  node reports when both children found a closest point. \<open>x\<close> is the query point
  \<^verbatim>\<open>s.c\<close>.
\<close>

definition selectInteraction ::
  "(interaction \<Rightarrow> vec \<Rightarrow> real) \<Rightarrow> BooleanOperation \<Rightarrow> vec \<Rightarrow> interaction \<Rightarrow> interaction \<Rightarrow>
   interaction" where
  "selectInteraction signedDistance operation' x iLeft iRight =
     (let sdLeft = signedDistance iLeft x;
          sdRight = signedDistance iRight x;
          info = (if distanceInfo iLeft = Exact \<and> distanceInfo iRight = Exact
                  then Exact else Bounded)
      in if operation' = Union_op then
           (if sdLeft < sdRight then iLeft else iRight)
             \<lparr>distanceInfo :=
                (if info = Exact \<and> sdLeft > 0 \<and> sdRight > 0 then Exact else Bounded)\<rparr>
         else if operation' = Intersection then
           (if sdLeft > sdRight then iLeft else iRight)
             \<lparr>distanceInfo :=
                (if info = Exact \<and> sdLeft < 0 \<and> sdRight < 0 then Exact else Bounded)\<rparr>
         else if operation' = Difference then
           (let iRight = flipNormal iRight;
                iRight = iRight\<lparr>sign := sign iRight * (- 1)\<rparr>
            in (if sdLeft > - sdRight then iLeft else iRight)
                 \<lparr>distanceInfo :=
                    (if info = Exact \<and> sdLeft < 0 \<and> sdRight > 0 then Exact else Bounded)\<rparr>)
         else (if d iLeft < d iRight then iLeft else iRight))"

text \<open>Lines 271-273: \<^verbatim>\<open>s.r2 = std::min(s.r2, i.d*i.d); notFound = false;\<close>.\<close>

definition shrinkR2 ::
  "bounding_sphere \<Rightarrow> interaction \<Rightarrow> bool \<times> bounding_sphere \<times> interaction" where
  "shrinkR2 s i = (True, s\<lparr>r2 := std_min (r2 s) (d i * d i)\<rparr>, i)"

definition findClosestPoint ::
  "(bounding_box \<Rightarrow> bounding_sphere \<Rightarrow> bool) \<Rightarrow> (interaction \<Rightarrow> vec \<Rightarrow> real) \<Rightarrow>
   csg_node \<Rightarrow> bounding_sphere \<Rightarrow> interaction \<Rightarrow> bool \<times> bounding_sphere \<times> interaction" where
  "findClosestPoint boxOverlaps signedDistance node s i =
     (if boxOverlaps (box node) s then
        case prim_findClosestPoint (left node) s of (foundLeft, sLeft, iLeft) \<Rightarrow>
        if \<not> foundLeft \<and> (operation node = Intersection \<or> operation node = Difference)
        then (False, s, i)
        else
          case prim_findClosestPoint (right node) s of (foundRight, sRight, iRight) \<Rightarrow>
          if \<not> foundLeft \<and> \<not> foundRight then (False, s, i)
          else if foundLeft \<and> foundRight then
            shrinkR2 s (selectInteraction signedDistance (operation node) (c s) iLeft iRight)
          else if foundLeft then
            if operation node = Intersection then (False, s, i)
            else shrinkR2 s iLeft
          else if foundRight then shrinkR2 s iRight
          else shrinkR2 s i
      else (False, s, i))"

subsection \<open>Predicates used by the statements\<close>


text \<open>
  The exactness rule for Union as the specification words it, to be compared with the
  code's: exact when both children's results are exact, except that it degrades to bounded
  when both signed distances are positive.
\<close>

definition spec_union_distanceInfo ::
  "DistanceInfo \<Rightarrow> DistanceInfo \<Rightarrow> real \<Rightarrow> real \<Rightarrow> DistanceInfo" where
  "spec_union_distanceInfo infoLeft infoRight sdLeft sdRight =
     (if infoLeft = Exact \<and> infoRight = Exact \<and> \<not> (0 < sdLeft \<and> 0 < sdRight)
      then Exact else Bounded)"

subsection \<open>Example inputs\<close>

text \<open>
  A child that reports a fixed list of crossings for every ray and a fixed closest point
  for every sphere, and the data the examples below are evaluated on.
\<close>

definition stubInteraction :: "real \<Rightarrow> vec \<Rightarrow> interaction" where
  "stubInteraction x nrm = \<lparr>d = x, sign = 1, n = nrm, distanceInfo = Exact\<rparr>"

definition stubPrimitive ::
  "bounding_box \<Rightarrow> real \<Rightarrow> interaction list \<Rightarrow> bool \<Rightarrow> interaction \<Rightarrow> primitive" where
  "stubPrimitive bx vol crossings found closest =
     \<lparr>prim_boundingBox = bx, prim_signedVolume = vol,
      prim_intersect = (\<lambda>r checkOcclusion countHits. (int (length crossings), r, crossings)),
      prim_findClosestPoint = (\<lambda>s. (found, s, closest))\<rparr>"

definition unitBox :: bounding_box where
  "unitBox = \<lparr>pMin = [0, 0], pMax = [1, 1], isTight = True\<rparr>"

definition exampleRay :: ray where
  "exampleRay = \<lparr>origin = [0, 0], direction = [1, 0], tMax = 100\<rparr>"

text \<open>An interval on the ray: entered at \<open>lo\<close>, left at \<open>hi\<close>.\<close>

definition intervalPrimitive :: "real \<Rightarrow> real \<Rightarrow> primitive" where
  "intervalPrimitive lo hi =
     stubPrimitive unitBox 1 [stubInteraction lo [- 1, 0], stubInteraction hi [1, 0]]
       True (stubInteraction lo [- 1, 0])"




text \<open>A child with signed volume \<open>vol\<close> and bounding box \<open>bx\<close> that no query ever hits.\<close>

definition solidPrimitive :: "bounding_box \<Rightarrow> real \<Rightarrow> primitive" where
  "solidPrimitive bx vol = stubPrimitive bx vol [] False (stubInteraction 0 [])"

definition exampleSphere :: bounding_sphere where
  "exampleSphere = \<lparr>c = [0, 0], r2 = 100\<rparr>"

text \<open>One possible \<^verbatim>\<open>signedDistance\<close>: the stored sign times the distance.\<close>

definition signedDistanceBySign :: "interaction \<Rightarrow> vec \<Rightarrow> real" where
  "signedDistanceBySign i x = real_of_int (sign i) * d i"

text \<open>A child whose closest point has sign \<open>sg\<close>, distance \<open>x\<close> and exactness \<open>info\<close>.\<close>

definition closestPrimitive :: "int \<Rightarrow> real \<Rightarrow> DistanceInfo \<Rightarrow> primitive" where
  "closestPrimitive sg x info =
     stubPrimitive unitBox 1 [] True \<lparr>d = x, sign = sg, n = [1, 0], distanceInfo = info\<rparr>"


section \<open>Properties\<close>

subsection \<open>Helper facts\<close>

lemma d_flipNormal: "d (flipNormal i) = d i"
  by (simp add: flipNormal_def)

lemma n_flipNormal: "n (flipNormal i) = map uminus (n i)"
  by (simp add: flipNormal_def)

lemma std_min_eq_min: "std_min a b = min a b"
  by (simp add: std_min_def min_def)

lemma set_std_merge: "set (std_merge cmp xs ys) = set xs \<union> set ys"
  by (induction cmp xs ys rule: std_merge.induct) auto

lemma sorted_std_merge:
  "sorted (map d xs) \<Longrightarrow> sorted (map d ys) \<Longrightarrow>
   sorted (map d (std_merge compareInteractions xs ys))"
  by (induction compareInteractions xs ys rule: std_merge.induct)
     (auto simp: set_std_merge compareInteractions_def)

text \<open>One turn of the loop, by the branch it takes.\<close>

lemma loop_stop:
  assumes "\<not> (restLeft \<noteq> [] \<or> restRight \<noteq> [])
      \<or> (operation' = Intersection \<and> (restLeft = [] \<or> restRight = []))
      \<or> (operation' = Difference \<and> restLeft = [])"
  shows "computeInteractions_loop operation' restLeft restRight isLeftIntervalStart
       isRightIntervalStart counter out = out"
  using assms by (subst computeInteractions_loop.simps) auto

lemma loop_takeLeft:
  assumes "restLeft \<noteq> [] \<or> restRight \<noteq> []"
    and "\<not> (operation' = Intersection \<and> (restLeft = [] \<or> restRight = []))"
    and "\<not> (operation' = Difference \<and> restLeft = [])"
    and "restRight = [] \<or> (restLeft \<noteq> [] \<and> d (hd restLeft) < d (hd restRight))"
  shows "computeInteractions_loop operation' restLeft restRight isLeftIntervalStart
       isRightIntervalStart counter out =
     computeInteractions_loop operation' (tl restLeft) restRight
            (\<not> isLeftIntervalStart) isRightIntervalStart
            (counter + (if isLeftIntervalStart then 1 else - 1))
            (if addInteraction operation' counter
                  (counter + (if isLeftIntervalStart then 1 else - 1))
             then out @ [hd restLeft] else out)"
  by (subst computeInteractions_loop.simps) (simp only: assms if_True if_False)

lemma loop_takeRight:
  assumes "restLeft \<noteq> [] \<or> restRight \<noteq> []"
    and "\<not> (operation' = Intersection \<and> (restLeft = [] \<or> restRight = []))"
    and "\<not> (operation' = Difference \<and> restLeft = [])"
    and "\<not> (restRight = [] \<or> (restLeft \<noteq> [] \<and> d (hd restLeft) < d (hd restRight)))"
  shows "computeInteractions_loop operation' restLeft restRight isLeftIntervalStart
       isRightIntervalStart counter out =
     computeInteractions_loop operation' restLeft (tl restRight)
            isLeftIntervalStart (\<not> isRightIntervalStart)
            (counter + (if isRightIntervalStart then 1 else - 1))
            (if addInteraction operation' counter
                  (counter + (if isRightIntervalStart then 1 else - 1))
             then out @ [if operation' = Difference then flipNormal (hd restRight)
                         else hd restRight]
             else out)"
  by (subst computeInteractions_loop.simps) (simp only: assms if_True if_False)

text \<open>
  The loop invariant behind the ordering of the parity merge: what has been emitted is
  sorted and lies below everything not yet consumed.
\<close>

lemma loop_sorted:
  "sorted (map d restLeft) \<Longrightarrow> sorted (map d restRight) \<Longrightarrow> sorted (map d out) \<Longrightarrow>
   (\<forall>x\<in>set out. \<forall>y\<in>set restLeft \<union> set restRight. d x \<le> d y) \<Longrightarrow>
   sorted (map d (computeInteractions_loop operation' restLeft restRight
      isLeftIntervalStart isRightIntervalStart counter out))"
proof (induction operation' restLeft restRight isLeftIntervalStart isRightIntervalStart
    counter out rule: computeInteractions_loop.induct)
  case (1 operation' restLeft restRight isLeftIntervalStart isRightIntervalStart counter out)
  let ?stop = "\<not> (restLeft \<noteq> [] \<or> restRight \<noteq> [])
      \<or> (operation' = Intersection \<and> (restLeft = [] \<or> restRight = []))
      \<or> (operation' = Difference \<and> restLeft = [])"
  let ?left = "restRight = [] \<or> (restLeft \<noteq> [] \<and> d (hd restLeft) < d (hd restRight))"
  show ?case
  proof (cases ?stop)
    case True
    then show ?thesis using "1.prems"(3) by (simp only: loop_stop)
  next
    case False
    then have ne: "restLeft \<noteq> [] \<or> restRight \<noteq> []"
      and nI: "\<not> (operation' = Intersection \<and> (restLeft = [] \<or> restRight = []))"
      and nD: "\<not> (operation' = Difference \<and> restLeft = [])"
      by blast+
    show ?thesis
    proof (cases ?left)
      case True
      with ne obtain x xs where L: "restLeft = x # xs" by (cases restLeft) auto
      have xR: "restRight = [] \<or> d x < d (hd restRight)" using True L by simp
      have below: "\<forall>y\<in>set xs \<union> set restRight. d x \<le> d y"
        using "1.prems"(1,2) L xR by (cases restRight) (auto simp: less_imp_le)
      let ?out = "if addInteraction operation' counter
                  (counter + (if isLeftIntervalStart then 1 else - 1))
             then out @ [hd restLeft] else out"
      have "sorted (map d (computeInteractions_loop operation' (tl restLeft) restRight
            (\<not> isLeftIntervalStart) isRightIntervalStart
            (counter + (if isLeftIntervalStart then 1 else - 1)) ?out))"
        using ne nI nD True
      proof (rule "1.IH"(1))
        show "sorted (map d (tl restLeft))" using "1.prems"(1) L by simp
        show "sorted (map d restRight)" by (rule "1.prems"(2))
        show "sorted (map d ?out)"
          using "1.prems"(3,4) L by (auto simp: sorted_append)
        show "\<forall>x\<in>set ?out. \<forall>y\<in>set (tl restLeft) \<union> set restRight. d x \<le> d y"
          using "1.prems"(4) L below by auto
      qed
      then show ?thesis by (simp only: loop_takeLeft [OF ne nI nD True])
    next
      case no: False
      then obtain y ys where R: "restRight = y # ys" by (cases restRight) auto
      have yL: "restLeft = [] \<or> d y \<le> d (hd restLeft)" using no R by auto
      let ?e = "if operation' = Difference then flipNormal (hd restRight) else hd restRight"
      have de: "d ?e = d y" using R by (simp add: d_flipNormal)
      have below: "\<forall>z\<in>set restLeft \<union> set ys. d y \<le> d z"
        using "1.prems"(1,2) R yL by (cases restLeft) auto
      let ?out = "if addInteraction operation' counter
                  (counter + (if isRightIntervalStart then 1 else - 1))
             then out @ [?e] else out"
      have "sorted (map d (computeInteractions_loop operation' restLeft (tl restRight)
            isLeftIntervalStart (\<not> isRightIntervalStart)
            (counter + (if isRightIntervalStart then 1 else - 1)) ?out))"
        using ne nI nD no
      proof (rule "1.IH"(2))
        show "sorted (map d restLeft)" by (rule "1.prems"(1))
        show "sorted (map d (tl restRight))" using "1.prems"(2) R by simp
        have "\<forall>x\<in>set out. d x \<le> d ?e" using "1.prems"(4) R de by simp
        then show "sorted (map d ?out)"
          using "1.prems"(3) by (simp add: sorted_append)
        have "\<forall>z\<in>set restLeft \<union> set (tl restRight). d ?e \<le> d z"
          using below R de by simp
        then show "\<forall>x\<in>set ?out. \<forall>z\<in>set restLeft \<union> set (tl restRight). d x \<le> d z"
          using "1.prems"(4) R by auto
      qed
      then show ?thesis by (simp only: loop_takeRight [OF ne nI nD no])
    qed
  qed
qed

lemma computeInteractions_sorted:
  "sorted (map d isLeft) \<Longrightarrow> sorted (map d isRight) \<Longrightarrow>
   sorted (map d (computeInteractions operation' isLeft isRight []))"
  by (simp add: computeInteractions_def Let_def loop_sorted)

lemma sorted_hd_least: "sorted (map d xs) \<Longrightarrow> x \<in> set xs \<Longrightarrow> d (hd xs) \<le> d x"
  by (cases xs) auto

lemma shrinkTMax_Inr:
  "shrinkTMax r countHits xs = Inr (hits, r', out) \<Longrightarrow>
   out = xs \<and> hits = int (length xs) \<and>
   r' = (if countHits then r else r\<lparr>tMax := d (hd xs)\<rparr>) \<and> (countHits \<or> xs \<noteq> [])"
  by (auto simp: shrinkTMax_def split: if_splits list.splits)

lemma shrinkTMax_countHits: "shrinkTMax r True xs = Inr (int (length xs), r, xs)"
  by (simp add: shrinkTMax_def)

lemma shrinkTMax_nonempty:
  "xs \<noteq> [] \<Longrightarrow> shrinkTMax r countHits xs =
     Inr (int (length xs), (if countHits then r else r\<lparr>tMax := d (hd xs)\<rparr>), xs)"
  by (cases xs) (auto simp: shrinkTMax_def)

text \<open>
  What a returning call has done, path by path: either it left through one of the early
  returns, or it went through lines 188-190 with the combined list.
\<close>

lemma intersect_Inr_cases:
  assumes "prim_intersect (left node) r False True = (hitsLeft, rLeft, isLeft)"
    and "prim_intersect (right node) r False True = (hitsRight, rRight, isRight)"
    and "intersect boxIntersect node r checkOcclusion countHits = Inr (hits, r', out)"
  shows "(hits = 0 \<and> r' = r \<and> out = [])
    \<or> (\<exists>xs. shrinkTMax r countHits xs = Inr (hits, r', out) \<and>
          (xs = std_merge compareInteractions isLeft isRight \<or>
           xs = computeInteractions (operation node) isLeft isRight [] \<or>
           xs = isLeft \<or> xs = isRight \<or> xs = []))"
  using assms by (auto simp: intersect_def split: if_splits)

lemma intersect_result_sorted:
  assumes "prim_intersect (left node) r False True = (hitsLeft, rLeft, isLeft)"
    and "prim_intersect (right node) r False True = (hitsRight, rRight, isRight)"
    and "sorted (map d isLeft)" and "sorted (map d isRight)"
    and "intersect boxIntersect node r checkOcclusion countHits = Inr (hits, r', out)"
  shows "sorted (map d out)"
proof -
  from intersect_Inr_cases [OF assms(1,2,5)]
  consider "out = []"
    | xs where "shrinkTMax r countHits xs = Inr (hits, r', out)"
        "xs = std_merge compareInteractions isLeft isRight \<or>
         xs = computeInteractions (operation node) isLeft isRight [] \<or>
         xs = isLeft \<or> xs = isRight \<or> xs = []"
    by blast
  then show ?thesis
  proof cases
    case 1
    then show ?thesis by simp
  next
    case 2
    from 2(1) have "out = xs" by (simp add: shrinkTMax_Inr)
    moreover have "sorted (map d xs)"
      using 2(2) assms(3,4) by (auto simp: sorted_std_merge computeInteractions_sorted)
    ultimately show ?thesis by simp
  qed
qed

lemma intersect_result_ray:
  assumes "prim_intersect (left node) r False True = (hitsLeft, rLeft, isLeft)"
    and "prim_intersect (right node) r False True = (hitsRight, rRight, isRight)"
    and "intersect boxIntersect node r checkOcclusion countHits = Inr (hits, r', out)"
  shows "hits = int (length out)
    \<and> r' = (if countHits \<or> out = [] then r else r\<lparr>tMax := d (hd out)\<rparr>)"
proof -
  from intersect_Inr_cases [OF assms]
  consider "hits = 0 \<and> r' = r \<and> out = []"
    | xs where "shrinkTMax r countHits xs = Inr (hits, r', out)"
    by blast
  then show ?thesis
  proof cases
    case 1
    then show ?thesis by simp
  next
    case 2
    from shrinkTMax_Inr [OF 2] show ?thesis by auto
  qed
qed

text \<open>
  With \<open>countHits\<close> set nothing is read from the output list, and the call returns on
  every input.
\<close>

lemma intersect_returns_when_counting:
  "\<exists>hits out. intersect boxIntersect node r checkOcclusion True = Inr (hits, r, out)"
  by (auto simp: intersect_def shrinkTMax_countHits split: prod.splits)

text \<open>
  The early exits and the one-sided paths of \<open>intersect\<close> (lines 141-186): no crossing on
  the left under Intersection or Difference, no crossing on either side, and crossings on
  one side only.
\<close>

lemma intersect_early_exits:
  assumes "prim_intersect (left node) r False True = (hitsLeft, rLeft, isLeft)"
    and "prim_intersect (right node) r False True = (hitsRight, rRight, isRight)"
  shows "\<not> boxIntersect (box node) r \<Longrightarrow>
      intersect boxIntersect node r checkOcclusion countHits = Inr (0, r, [])"
    and "boxIntersect (box node) r \<Longrightarrow> hitsLeft = 0 \<Longrightarrow>
      operation node = Intersection \<or> operation node = Difference \<Longrightarrow>
      intersect boxIntersect node r checkOcclusion countHits = Inr (0, r, [])"
    and "boxIntersect (box node) r \<Longrightarrow> hitsLeft = 0 \<Longrightarrow> hitsRight = 0 \<Longrightarrow>
      intersect boxIntersect node r checkOcclusion countHits = Inr (0, r, [])"
    and "boxIntersect (box node) r \<Longrightarrow> 0 < hitsLeft \<Longrightarrow> hitsRight = 0 \<Longrightarrow>
      operation node = Intersection \<Longrightarrow>
      intersect boxIntersect node r checkOcclusion countHits = Inr (0, r, [])"
    and "boxIntersect (box node) r \<Longrightarrow> 0 < hitsLeft \<Longrightarrow> hitsRight = 0 \<Longrightarrow>
      operation node \<noteq> Intersection \<Longrightarrow>
      intersect boxIntersect node r checkOcclusion countHits = shrinkTMax r countHits isLeft"
    and "boxIntersect (box node) r \<Longrightarrow> hitsLeft = 0 \<Longrightarrow> 0 < hitsRight \<Longrightarrow>
      operation node = Union_op \<or> operation node = None_op \<Longrightarrow>
      intersect boxIntersect node r checkOcclusion countHits = shrinkTMax r countHits isRight"
  using assms by (auto simp: intersect_def)

text \<open>
  The path on which the read of line 190 goes wrong: both children report crossings, the
  operation is not None, the parity merge emits nothing, and \<open>countHits\<close> is unset.
\<close>

lemma intersect_empty_combination:
  assumes "boxIntersect (box node) r"
    and "prim_intersect (left node) r False True = (hitsLeft, rLeft, isLeft)"
    and "prim_intersect (right node) r False True = (hitsRight, rRight, isRight)"
    and "0 < hitsLeft" and "0 < hitsRight" and "operation node \<noteq> None_op"
    and "computeInteractions (operation node) isLeft isRight [] = []"
  shows "intersect boxIntersect node r checkOcclusion False = Inl OutOfRange"
  using assms by (simp add: intersect_def shrinkTMax_def)

text \<open>
  For children whose hit count is the length of their list, that path is the only one on
  which the read goes wrong.
\<close>

lemma std_merge_Nil_iff: "std_merge cmp xs ys = [] \<longleftrightarrow> xs = [] \<and> ys = []"
  by (induction cmp xs ys rule: std_merge.induct) auto

lemma shrinkTMax_Inl_iff: "shrinkTMax r countHits xs = Inl e \<longleftrightarrow> \<not> countHits \<and> xs = []"
  by (cases e) (auto simp: shrinkTMax_def split: list.splits)

lemma intersect_fails_iff:
  assumes "prim_intersect (left node) r False True = (hitsLeft, rLeft, isLeft)"
    and "prim_intersect (right node) r False True = (hitsRight, rRight, isRight)"
    and "hitsLeft = int (length isLeft)" and "hitsRight = int (length isRight)"
  shows "intersect boxIntersect node r checkOcclusion countHits = Inl e \<longleftrightarrow>
     boxIntersect (box node) r \<and> \<not> countHits \<and> isLeft \<noteq> [] \<and> isRight \<noteq> [] \<and>
     operation node \<noteq> None_op \<and>
     computeInteractions (operation node) isLeft isRight [] = []"
  using assms
  by (auto simp: intersect_def shrinkTMax_Inl_iff std_merge_Nil_iff)

text \<open>
  Union never combines two lists, one of them non-empty, to the empty list: the crossing
  consumed last closes the last open interval and is emitted. So the read of line 190 can
  go wrong under Intersection and Difference only.
\<close>

lemma loop_length_ge:
  "length out \<le> length (computeInteractions_loop operation' restLeft restRight
      isLeftIntervalStart isRightIntervalStart counter out)"
proof (induction operation' restLeft restRight isLeftIntervalStart isRightIntervalStart
    counter out rule: computeInteractions_loop.induct)
  case (1 operation' restLeft restRight isLeftIntervalStart isRightIntervalStart counter out)
  let ?stop = "\<not> (restLeft \<noteq> [] \<or> restRight \<noteq> [])
      \<or> (operation' = Intersection \<and> (restLeft = [] \<or> restRight = []))
      \<or> (operation' = Difference \<and> restLeft = [])"
  let ?left = "restRight = [] \<or> (restLeft \<noteq> [] \<and> d (hd restLeft) < d (hd restRight))"
  show ?case
  proof (cases ?stop)
    case True
    then show ?thesis by (simp only: loop_stop)
  next
    case False
    then have ne: "restLeft \<noteq> [] \<or> restRight \<noteq> []"
      and nI: "\<not> (operation' = Intersection \<and> (restLeft = [] \<or> restRight = []))"
      and nD: "\<not> (operation' = Difference \<and> restLeft = [])"
      by blast+
    show ?thesis
    proof (cases ?left)
      case True
      have "length out \<le> length (if addInteraction operation' counter
            (counter + (if isLeftIntervalStart then 1 else - 1))
          then out @ [hd restLeft] else out)"
        by simp
      also note "1.IH"(1) [OF ne nI nD True]
      finally show ?thesis
        unfolding loop_takeLeft [OF ne nI nD True] .
    next
      case no: False
      have "length out \<le> length (if addInteraction operation' counter
            (counter + (if isRightIntervalStart then 1 else - 1))
          then out @ [if operation' = Difference then flipNormal (hd restRight)
                      else hd restRight]
          else out)"
        by simp
      also note "1.IH"(2) [OF ne nI nD no]
      finally show ?thesis
        unfolding loop_takeRight [OF ne nI nD no] .
    qed
  qed
qed

lemma loop_union_emits:
  "isLeftIntervalStart = even (length restLeft) \<Longrightarrow>
   isRightIntervalStart = even (length restRight) \<Longrightarrow>
   counter = (if isLeftIntervalStart then 0 else 1) + (if isRightIntervalStart then 0 else 1) \<Longrightarrow>
   restLeft \<noteq> [] \<or> restRight \<noteq> [] \<Longrightarrow> operation' = Union_op \<Longrightarrow>
   length out < length (computeInteractions_loop operation' restLeft restRight
      isLeftIntervalStart isRightIntervalStart counter out)"
proof (induction operation' restLeft restRight isLeftIntervalStart isRightIntervalStart
    counter out rule: computeInteractions_loop.induct)
  case (1 operation' restLeft restRight isLeftIntervalStart isRightIntervalStart counter out)
  let ?left = "restRight = [] \<or> (restLeft \<noteq> [] \<and> d (hd restLeft) < d (hd restRight))"
  have ne: "restLeft \<noteq> [] \<or> restRight \<noteq> []" by (rule "1.prems"(4))
  have nI: "\<not> (operation' = Intersection \<and> (restLeft = [] \<or> restRight = []))"
    and nD: "\<not> (operation' = Difference \<and> restLeft = [])"
    using "1.prems"(5) by simp_all
  show ?case
  proof (cases ?left)
    case True
    with ne obtain x xs where L: "restLeft = x # xs" by (cases restLeft) auto
    let ?counter = "counter + (if isLeftIntervalStart then 1 else - 1)"
    let ?out = "if addInteraction operation' counter ?counter then out @ [hd restLeft] else out"
    let ?next = "computeInteractions_loop operation' (tl restLeft) restRight
        (\<not> isLeftIntervalStart) isRightIntervalStart ?counter ?out"
    have step: "computeInteractions_loop operation' restLeft restRight
        isLeftIntervalStart isRightIntervalStart counter out = ?next"
      by (rule loop_takeLeft [OF ne nI nD True])
    show ?thesis
    proof (cases "addInteraction operation' counter ?counter")
      case True
      have "length ?out \<le> length ?next" by (rule loop_length_ge)
      with True show ?thesis unfolding step by simp
    next
      case False
      have p1: "(\<not> isLeftIntervalStart) = even (length (tl restLeft))"
        using "1.prems"(1) L by simp
      have p3: "?counter = (if \<not> isLeftIntervalStart then 0 else 1)
          + (if isRightIntervalStart then 0 else 1)"
        using "1.prems"(3) by simp
      have more: "tl restLeft \<noteq> [] \<or> restRight \<noteq> []"
        using False "1.prems"(1,2,3,5) L
        by (cases xs; cases restRight) (auto simp: addInteraction_def split: if_splits)
      from "1.IH"(1) [OF ne nI nD \<open>?left\<close> p1 "1.prems"(2) p3 more "1.prems"(5)] False
      show ?thesis unfolding step by simp
    qed
  next
    case no: False
    then obtain y ys where R: "restRight = y # ys" by (cases restRight) auto
    let ?counter = "counter + (if isRightIntervalStart then 1 else - 1)"
    let ?out = "if addInteraction operation' counter ?counter
        then out @ [if operation' = Difference then flipNormal (hd restRight) else hd restRight]
        else out"
    let ?next = "computeInteractions_loop operation' restLeft (tl restRight)
        isLeftIntervalStart (\<not> isRightIntervalStart) ?counter ?out"
    have step: "computeInteractions_loop operation' restLeft restRight
        isLeftIntervalStart isRightIntervalStart counter out = ?next"
      by (rule loop_takeRight [OF ne nI nD no])
    show ?thesis
    proof (cases "addInteraction operation' counter ?counter")
      case True
      have "length ?out \<le> length ?next" by (rule loop_length_ge)
      with True show ?thesis unfolding step by simp
    next
      case False
      have p2: "(\<not> isRightIntervalStart) = even (length (tl restRight))"
        using "1.prems"(2) R by simp
      have p3: "?counter = (if isLeftIntervalStart then 0 else 1)
          + (if \<not> isRightIntervalStart then 0 else 1)"
        using "1.prems"(3) by simp
      have more: "restLeft \<noteq> [] \<or> tl restRight \<noteq> []"
        using False "1.prems"(1,2,3,5) R
        by (cases ys; cases restLeft) (auto simp: addInteraction_def split: if_splits)
      from "1.IH"(2) [OF ne nI nD no "1.prems"(1) p2 p3 more "1.prems"(5)] False
      show ?thesis unfolding step by simp
    qed
  qed
qed

lemma computeInteractions_Union_nonempty:
  "isLeft \<noteq> [] \<or> isRight \<noteq> [] \<Longrightarrow> computeInteractions Union_op isLeft isRight [] \<noteq> []"
proof -
  assume ne: "isLeft \<noteq> [] \<or> isRight \<noteq> []"
  have "length ([]::interaction list) < length (computeInteractions_loop Union_op isLeft isRight
      (even (length isLeft)) (even (length isRight))
      ((if even (length isLeft) then 0 else 1) + (if even (length isRight) then 0 else 1)) [])"
    using ne by (intro loop_union_emits) simp_all
  moreover have "(int (length isLeft) mod 2 = 0) = even (length isLeft)"
    "(int (length isRight) mod 2 = 0) = even (length isRight)"
    by presburger+
  ultimately show ?thesis
    by (auto simp: computeInteractions_def Let_def)
qed

lemma intersect_Union_None_returns:
  assumes "prim_intersect (left node) r False True = (hitsLeft, rLeft, isLeft)"
    and "prim_intersect (right node) r False True = (hitsRight, rRight, isRight)"
    and "hitsLeft = int (length isLeft)" and "hitsRight = int (length isRight)"
    and "operation node = Union_op \<or> operation node = None_op"
  shows "\<exists>hits r' out.
    intersect boxIntersect node r checkOcclusion countHits = Inr (hits, r', out)"
proof (cases "intersect boxIntersect node r checkOcclusion countHits")
  case (Inl e)
  with intersect_fails_iff [OF assms(1-4)] assms(5) computeInteractions_Union_nonempty
  show ?thesis by metis
next
  case (Inr res)
  then show ?thesis by (cases res) auto
qed

lemma merge_1425:
  assumes "d a1 = 1" "d a2 = 4" "d b1 = 2" "d b2 = 5"
  shows "computeInteractions Union_op [a1, a2] [b1, b2] [] = [a1, b2]"
    and "computeInteractions Intersection [a1, a2] [b1, b2] [] = [b1, a2]"
    and "computeInteractions Difference [a1, a2] [b1, b2] [] = [a1, flipNormal b1]"
  using assms
  by (simp_all add: computeInteractions_def computeInteractions_loop.simps addInteraction_def)








lemma findClosestPoint_shape:
  assumes "findClosestPoint boxOverlaps signedDistance node s i = (found, s', i')"
  shows "(\<not> found \<and> s' = s \<and> i' = i) \<or> (found \<and> shrinkR2 s i' = (found, s', i'))"
  using assms
  by (auto simp: findClosestPoint_def shrinkR2_def split: if_splits prod.splits)

lemma findClosestPoint_both_found:
  assumes "boxOverlaps bx s"
    and "prim_findClosestPoint lft s = (True, sL, iL)"
    and "prim_findClosestPoint rgt s = (True, sR, iR)"
  shows "findClosestPoint boxOverlaps signedDistance
      \<lparr>left = lft, right = rgt, operation = operation', box = bx\<rparr> s i
    = shrinkR2 s (selectInteraction signedDistance operation' (c s) iL iR)"
  using assms by (simp add: findClosestPoint_def)

lemma selectInteraction_Union:
  "selectInteraction signedDistance Union_op x iL iR =
     (if signedDistance iL x < signedDistance iR x then iL else iR)
       \<lparr>distanceInfo :=
          (if distanceInfo iL = Exact \<and> distanceInfo iR = Exact
              \<and> 0 < signedDistance iL x \<and> 0 < signedDistance iR x
           then Exact else Bounded)\<rparr>"
  by (simp add: selectInteraction_def Let_def)

lemma selectInteraction_Intersection:
  "selectInteraction signedDistance Intersection x iL iR =
     (if signedDistance iL x > signedDistance iR x then iL else iR)
       \<lparr>distanceInfo :=
          (if distanceInfo iL = Exact \<and> distanceInfo iR = Exact
              \<and> signedDistance iL x < 0 \<and> signedDistance iR x < 0
           then Exact else Bounded)\<rparr>"
  by (simp add: selectInteraction_def Let_def)

lemma selectInteraction_Difference:
  "selectInteraction signedDistance Difference x iL iR =
     (if signedDistance iL x > - signedDistance iR x then iL
      else iR\<lparr>sign := - sign iR, n := map uminus (n iR)\<rparr>)
       \<lparr>distanceInfo :=
          (if distanceInfo iL = Exact \<and> distanceInfo iR = Exact
              \<and> signedDistance iL x < 0 \<and> 0 < signedDistance iR x
           then Exact else Bounded)\<rparr>"
  by (simp add: selectInteraction_def Let_def flipNormal_def)

lemma selectInteraction_None:
  "selectInteraction signedDistance None_op x iL iR = (if d iL < d iR then iL else iR)"
  by (simp add: selectInteraction_def Let_def)

lemmas selectInteraction_by_operation =
  selectInteraction_Union selectInteraction_Intersection selectInteraction_Difference
  selectInteraction_None

subsection \<open>The claims\<close>

text \<open>
  C1. Left child reporting crossings at distances 1 and 4, right child reporting 2 and 5,
  bounding-box test passed: the parity merge, and \<open>intersect\<close> through it, gives the
  crossings at 1 and 5 for Union, at 2 and 4 for Intersection, and at 1 and 2 for
  Difference, where the second crossing of the Difference is the right child's first one
  with its normal negated. With \<open>countHits\<close> unset the ray's \<open>tMax\<close> becomes the first of
  these distances.
\<close>

theorem C1_parity_merge:
  assumes "d a1 = 1" and "d a2 = 4" and "d b1 = 2" and "d b2 = 5"
    and "boxIntersect bx ry"
    and "prim_intersect lft ry False True = (2, rL, [a1, a2])"
    and "prim_intersect rgt ry False True = (2, rR, [b1, b2])"
  shows "computeInteractions Union_op [a1, a2] [b1, b2] [] = [a1, b2]
    \<and> computeInteractions Intersection [a1, a2] [b1, b2] [] = [b1, a2]
    \<and> computeInteractions Difference [a1, a2] [b1, b2] [] = [a1, flipNormal b1]
    \<and> d (flipNormal b1) = 2 \<and> n (flipNormal b1) = map uminus (n b1)
    \<and> intersect boxIntersect \<lparr>left = lft, right = rgt, operation = Union_op, box = bx\<rparr>
          ry checkOcclusion True = Inr (2, ry, [a1, b2])
    \<and> intersect boxIntersect \<lparr>left = lft, right = rgt, operation = Intersection, box = bx\<rparr>
          ry checkOcclusion True = Inr (2, ry, [b1, a2])
    \<and> intersect boxIntersect \<lparr>left = lft, right = rgt, operation = Difference, box = bx\<rparr>
          ry checkOcclusion True = Inr (2, ry, [a1, flipNormal b1])
    \<and> intersect boxIntersect \<lparr>left = lft, right = rgt, operation = Union_op, box = bx\<rparr>
          ry checkOcclusion False = Inr (2, ry\<lparr>tMax := 1\<rparr>, [a1, b2])
    \<and> intersect boxIntersect \<lparr>left = lft, right = rgt, operation = Intersection, box = bx\<rparr>
          ry checkOcclusion False = Inr (2, ry\<lparr>tMax := 2\<rparr>, [b1, a2])
    \<and> intersect boxIntersect \<lparr>left = lft, right = rgt, operation = Difference, box = bx\<rparr>
          ry checkOcclusion False = Inr (2, ry\<lparr>tMax := 1\<rparr>, [a1, flipNormal b1])"
  using assms merge_1425 [OF assms(1-4)]
  by (simp add: intersect_def shrinkTMax_def flipNormal_def)

theorem C1_parity_merge_witness:
  "prim_intersect (intervalPrimitive 1 4) exampleRay False True
     = (2, exampleRay, [stubInteraction 1 [- 1, 0], stubInteraction 4 [1, 0]])
   \<and> prim_intersect (intervalPrimitive 2 5) exampleRay False True
     = (2, exampleRay, [stubInteraction 2 [- 1, 0], stubInteraction 5 [1, 0]])
   \<and> intersect (\<lambda>b r. True)
      \<lparr>left = intervalPrimitive 1 4, right = intervalPrimitive 2 5, operation = Union_op,
       box = unitBox\<rparr> exampleRay False True
     = Inr (2, exampleRay, [stubInteraction 1 [- 1, 0], stubInteraction 5 [1, 0]])
   \<and> intersect (\<lambda>b r. True)
      \<lparr>left = intervalPrimitive 1 4, right = intervalPrimitive 2 5, operation = Intersection,
       box = unitBox\<rparr> exampleRay False True
     = Inr (2, exampleRay, [stubInteraction 2 [- 1, 0], stubInteraction 4 [1, 0]])
   \<and> intersect (\<lambda>b r. True)
      \<lparr>left = intervalPrimitive 1 4, right = intervalPrimitive 2 5, operation = Difference,
       box = unitBox\<rparr> exampleRay False True
     = Inr (2, exampleRay, [stubInteraction 1 [- 1, 0], stubInteraction 2 [1, 0]])"
  using C1_parity_merge [where ?a1.0 = "stubInteraction 1 [- 1, 0]"
      and ?a2.0 = "stubInteraction 4 [1, 0]" and ?b1.0 = "stubInteraction 2 [- 1, 0]"
      and ?b2.0 = "stubInteraction 5 [1, 0]" and boxIntersect = "\<lambda>b r. True"
      and bx = unitBox and ry = exampleRay and lft = "intervalPrimitive 1 4"
      and rgt = "intervalPrimitive 2 5" and rL = exampleRay and rR = exampleRay
      and checkOcclusion = False]
  by (simp add: intervalPrimitive_def stubPrimitive_def stubInteraction_def flipNormal_def)

text \<open>
  C2. The claim: when both children report crossings and their combination is empty, a
  call with \<open>countHits\<close> unset returns 0 without reading element 0 of the empty list. The
  code at that input: Intersection of the disjoint intervals from 1 to 2 and from 3 to 4
  combines to the empty list, and line 190 then reads \<^verbatim>\<open>is[0]\<close>.
\<close>

theorem C2_empty_combination_reads_out_of_range:
  "intersect (\<lambda>b r. True)
      \<lparr>left = intervalPrimitive 1 2, right = intervalPrimitive 3 4, operation = Intersection,
       box = unitBox\<rparr> exampleRay False False = Inl OutOfRange"
  by (simp add: intersect_def shrinkTMax_def intervalPrimitive_def stubPrimitive_def
      stubInteraction_def computeInteractions_def computeInteractions_loop.simps
      addInteraction_def)

text \<open>
  C3, as amended. When both children return a result, the exactness of the combined
  interaction is: for Union, exact exactly when both children's results are exact and both
  signed distances are positive; for Intersection, exact exactly when both are exact and
  both signed distances are negative; for Difference, exact exactly when both are exact,
  the left signed distance is negative and the right one positive; for None, the exactness
  of the child with the smaller distance \<^verbatim>\<open>d\<close> (the right child on a tie), unchanged.
\<close>

theorem C3_distanceInfo_amended:
  assumes "boxOverlaps bx s"
    and "prim_findClosestPoint lft s = (True, sL, iL)"
    and "prim_findClosestPoint rgt s = (True, sR, iR)"
  shows "distanceInfo (snd (snd (findClosestPoint boxOverlaps signedDistance
        \<lparr>left = lft, right = rgt, operation = Union_op, box = bx\<rparr> s i))) =
      (if distanceInfo iL = Exact \<and> distanceInfo iR = Exact
          \<and> 0 < signedDistance iL (c s) \<and> 0 < signedDistance iR (c s)
       then Exact else Bounded)
    \<and> distanceInfo (snd (snd (findClosestPoint boxOverlaps signedDistance
        \<lparr>left = lft, right = rgt, operation = Intersection, box = bx\<rparr> s i))) =
      (if distanceInfo iL = Exact \<and> distanceInfo iR = Exact
          \<and> signedDistance iL (c s) < 0 \<and> signedDistance iR (c s) < 0
       then Exact else Bounded)
    \<and> distanceInfo (snd (snd (findClosestPoint boxOverlaps signedDistance
        \<lparr>left = lft, right = rgt, operation = Difference, box = bx\<rparr> s i))) =
      (if distanceInfo iL = Exact \<and> distanceInfo iR = Exact
          \<and> signedDistance iL (c s) < 0 \<and> 0 < signedDistance iR (c s)
       then Exact else Bounded)
    \<and> distanceInfo (snd (snd (findClosestPoint boxOverlaps signedDistance
        \<lparr>left = lft, right = rgt, operation = None_op, box = bx\<rparr> s i))) =
      distanceInfo (if d iL < d iR then iL else iR)"
proof -
  note run = findClosestPoint_both_found [where boxOverlaps = boxOverlaps and bx = bx,
      OF assms]
  show ?thesis
    unfolding run shrinkR2_def selectInteraction_by_operation
    by (simp split del: if_split cong: if_cong)
qed

theorem C3_distanceInfo_amended_witness:
  "prim_findClosestPoint (closestPrimitive 1 1 Exact) exampleSphere
      = (True, exampleSphere, \<lparr>d = 1, sign = 1, n = [1, 0], distanceInfo = Exact\<rparr>)
   \<and> distanceInfo (snd (snd (findClosestPoint (\<lambda>b s. True) signedDistanceBySign
        \<lparr>left = closestPrimitive 1 1 Exact, right = closestPrimitive 1 2 Exact,
         operation = Union_op, box = unitBox\<rparr> exampleSphere (stubInteraction 0 []))))
      = Exact
   \<and> distanceInfo (snd (snd (findClosestPoint (\<lambda>b s. True) signedDistanceBySign
        \<lparr>left = closestPrimitive 1 1 Exact, right = closestPrimitive 1 2 Exact,
         operation = Intersection, box = unitBox\<rparr> exampleSphere (stubInteraction 0 []))))
      = Bounded
   \<and> distanceInfo (snd (snd (findClosestPoint (\<lambda>b s. True) signedDistanceBySign
        \<lparr>left = closestPrimitive 1 1 Exact, right = closestPrimitive 1 2 Exact,
         operation = Difference, box = unitBox\<rparr> exampleSphere (stubInteraction 0 []))))
      = Bounded
   \<and> distanceInfo (snd (snd (findClosestPoint (\<lambda>b s. True) signedDistanceBySign
        \<lparr>left = closestPrimitive 1 1 Exact, right = closestPrimitive 1 2 Exact,
         operation = None_op, box = unitBox\<rparr> exampleSphere (stubInteraction 0 []))))
      = Exact"
  using C3_distanceInfo_amended [where boxOverlaps = "\<lambda>b s. True" and bx = unitBox
      and s = exampleSphere and lft = "closestPrimitive 1 1 Exact"
      and rgt = "closestPrimitive 1 2 Exact" and sL = exampleSphere and sR = exampleSphere
      and iL = "\<lparr>d = 1, sign = 1, n = [1, 0], distanceInfo = Exact\<rparr>"
      and iR = "\<lparr>d = 2, sign = 1, n = [1, 0], distanceInfo = Exact\<rparr>"
      and signedDistance = signedDistanceBySign and i = "stubInteraction 0 []"]
  by (simp add: closestPrimitive_def stubPrimitive_def signedDistanceBySign_def)

text \<open>
  C3 as stated fails for Union: with both children exact and both signed distances
  positive (1 and 2) the code reports an exact result, where the stated rule degrades it
  to bounded.
\<close>

theorem C3_union_exact_outside_both_counterexample:
  "distanceInfo (snd (snd (findClosestPoint (\<lambda>b s. True) signedDistanceBySign
        \<lparr>left = closestPrimitive 1 1 Exact, right = closestPrimitive 1 2 Exact,
         operation = Union_op, box = unitBox\<rparr> exampleSphere (stubInteraction 0 []))))
      = Exact
   \<and> spec_union_distanceInfo Exact Exact
        (signedDistanceBySign \<lparr>d = 1, sign = 1, n = [1, 0], distanceInfo = Exact\<rparr>
           (c exampleSphere))
        (signedDistanceBySign \<lparr>d = 2, sign = 1, n = [1, 0], distanceInfo = Exact\<rparr>
           (c exampleSphere))
      = Bounded"
  by (simp add: findClosestPoint_def selectInteraction_def shrinkR2_def
      closestPrimitive_def stubPrimitive_def signedDistanceBySign_def
      spec_union_distanceInfo_def)

text \<open>
  C4. When both children return a result, the call returns true and the reported
  interaction is, up to its exactness field: for Union the left child's when its signed
  distance is smaller and the right child's otherwise, so the one whose signed distance is
  the minimum; for Intersection the left child's when its signed distance is larger and
  the right child's otherwise, the one with the maximum; for Difference the left child's
  when \<open>sdLeft > - sdRight\<close> and otherwise the right child's with normal and sign negated,
  the side with the larger of \<open>sdLeft\<close> and \<open>- sdRight\<close>; for None the child with the smaller
  unsigned distance \<^verbatim>\<open>d\<close>, unchanged.
\<close>

theorem C4_selection:
  assumes "boxOverlaps bx s"
    and "prim_findClosestPoint lft s = (True, sL, iL)"
    and "prim_findClosestPoint rgt s = (True, sR, iR)"
  shows "findClosestPoint boxOverlaps signedDistance
        \<lparr>left = lft, right = rgt, operation = Union_op, box = bx\<rparr> s i =
      shrinkR2 s ((if signedDistance iL (c s) < signedDistance iR (c s) then iL else iR)
        \<lparr>distanceInfo := distanceInfo (snd (snd (findClosestPoint boxOverlaps signedDistance
            \<lparr>left = lft, right = rgt, operation = Union_op, box = bx\<rparr> s i)))\<rparr>)
    \<and> signedDistance
        (if signedDistance iL (c s) < signedDistance iR (c s) then iL else iR) (c s)
      = min (signedDistance iL (c s)) (signedDistance iR (c s))
    \<and> findClosestPoint boxOverlaps signedDistance
        \<lparr>left = lft, right = rgt, operation = Intersection, box = bx\<rparr> s i =
      shrinkR2 s ((if signedDistance iL (c s) > signedDistance iR (c s) then iL else iR)
        \<lparr>distanceInfo := distanceInfo (snd (snd (findClosestPoint boxOverlaps signedDistance
            \<lparr>left = lft, right = rgt, operation = Intersection, box = bx\<rparr> s i)))\<rparr>)
    \<and> signedDistance
        (if signedDistance iL (c s) > signedDistance iR (c s) then iL else iR) (c s)
      = max (signedDistance iL (c s)) (signedDistance iR (c s))
    \<and> findClosestPoint boxOverlaps signedDistance
        \<lparr>left = lft, right = rgt, operation = Difference, box = bx\<rparr> s i =
      shrinkR2 s ((if signedDistance iL (c s) > - signedDistance iR (c s) then iL
         else iR\<lparr>sign := - sign iR, n := map uminus (n iR)\<rparr>)
        \<lparr>distanceInfo := distanceInfo (snd (snd (findClosestPoint boxOverlaps signedDistance
            \<lparr>left = lft, right = rgt, operation = Difference, box = bx\<rparr> s i)))\<rparr>)
    \<and> (if signedDistance iL (c s) > - signedDistance iR (c s)
        then signedDistance iL (c s) else - signedDistance iR (c s))
      = max (signedDistance iL (c s)) (- signedDistance iR (c s))
    \<and> findClosestPoint boxOverlaps signedDistance
        \<lparr>left = lft, right = rgt, operation = None_op, box = bx\<rparr> s i =
      shrinkR2 s (if d iL < d iR then iL else iR)
    \<and> d (if d iL < d iR then iL else iR) = min (d iL) (d iR)"
proof -
  note run = findClosestPoint_both_found [where boxOverlaps = boxOverlaps and bx = bx,
      OF assms]
  have u: "findClosestPoint boxOverlaps signedDistance
        \<lparr>left = lft, right = rgt, operation = Union_op, box = bx\<rparr> s i =
      shrinkR2 s ((if signedDistance iL (c s) < signedDistance iR (c s) then iL else iR)
        \<lparr>distanceInfo := distanceInfo (snd (snd (findClosestPoint boxOverlaps signedDistance
            \<lparr>left = lft, right = rgt, operation = Union_op, box = bx\<rparr> s i)))\<rparr>)"
    unfolding run shrinkR2_def selectInteraction_Union
    by (simp split del: if_split cong: if_cong)
  have i: "findClosestPoint boxOverlaps signedDistance
        \<lparr>left = lft, right = rgt, operation = Intersection, box = bx\<rparr> s i =
      shrinkR2 s ((if signedDistance iL (c s) > signedDistance iR (c s) then iL else iR)
        \<lparr>distanceInfo := distanceInfo (snd (snd (findClosestPoint boxOverlaps signedDistance
            \<lparr>left = lft, right = rgt, operation = Intersection, box = bx\<rparr> s i)))\<rparr>)"
    unfolding run shrinkR2_def selectInteraction_Intersection
    by (simp split del: if_split cong: if_cong)
  have dd: "findClosestPoint boxOverlaps signedDistance
        \<lparr>left = lft, right = rgt, operation = Difference, box = bx\<rparr> s i =
      shrinkR2 s ((if signedDistance iL (c s) > - signedDistance iR (c s) then iL
         else iR\<lparr>sign := - sign iR, n := map uminus (n iR)\<rparr>)
        \<lparr>distanceInfo := distanceInfo (snd (snd (findClosestPoint boxOverlaps signedDistance
            \<lparr>left = lft, right = rgt, operation = Difference, box = bx\<rparr> s i)))\<rparr>)"
    unfolding run shrinkR2_def selectInteraction_Difference
    by (simp split del: if_split cong: if_cong)
  have nn: "findClosestPoint boxOverlaps signedDistance
        \<lparr>left = lft, right = rgt, operation = None_op, box = bx\<rparr> s i =
      shrinkR2 s (if d iL < d iR then iL else iR)"
    unfolding run selectInteraction_None by (rule refl)
  have m1: "signedDistance
        (if signedDistance iL (c s) < signedDistance iR (c s) then iL else iR) (c s)
      = min (signedDistance iL (c s)) (signedDistance iR (c s))"
    by (simp add: min_def)
  have m2: "signedDistance
        (if signedDistance iL (c s) > signedDistance iR (c s) then iL else iR) (c s)
      = max (signedDistance iL (c s)) (signedDistance iR (c s))"
    by (simp add: max_def)
  have m3: "(if signedDistance iL (c s) > - signedDistance iR (c s)
        then signedDistance iL (c s) else - signedDistance iR (c s))
      = max (signedDistance iL (c s)) (- signedDistance iR (c s))"
    by (simp add: max_def)
  have m4: "d (if d iL < d iR then iL else iR) = min (d iL) (d iR)"
    by (simp add: min_def)
  from u m1 i m2 dd m3 nn m4 show ?thesis by (intro conjI)
qed

theorem C4_selection_witness:
  "prim_findClosestPoint (closestPrimitive (- 1) 1 Exact) exampleSphere
      = (True, exampleSphere, \<lparr>d = 1, sign = - 1, n = [1, 0], distanceInfo = Exact\<rparr>)
   \<and> prim_findClosestPoint (closestPrimitive 1 2 Exact) exampleSphere
      = (True, exampleSphere, \<lparr>d = 2, sign = 1, n = [1, 0], distanceInfo = Exact\<rparr>)
   \<and> snd (snd (findClosestPoint (\<lambda>b s. True) signedDistanceBySign
        \<lparr>left = closestPrimitive (- 1) 1 Exact, right = closestPrimitive 1 2 Exact,
         operation = Union_op, box = unitBox\<rparr> exampleSphere (stubInteraction 0 [])))
      = \<lparr>d = 1, sign = - 1, n = [1, 0], distanceInfo = Bounded\<rparr>
   \<and> snd (snd (findClosestPoint (\<lambda>b s. True) signedDistanceBySign
        \<lparr>left = closestPrimitive (- 1) 1 Exact, right = closestPrimitive 1 2 Exact,
         operation = Intersection, box = unitBox\<rparr> exampleSphere (stubInteraction 0 [])))
      = \<lparr>d = 2, sign = 1, n = [1, 0], distanceInfo = Bounded\<rparr>
   \<and> snd (snd (findClosestPoint (\<lambda>b s. True) signedDistanceBySign
        \<lparr>left = closestPrimitive (- 1) 1 Exact, right = closestPrimitive 1 (1 / 2) Exact,
         operation = Difference, box = unitBox\<rparr> exampleSphere (stubInteraction 0 [])))
      = \<lparr>d = 1 / 2, sign = - 1, n = [- 1, 0], distanceInfo = Exact\<rparr>
   \<and> snd (snd (findClosestPoint (\<lambda>b s. True) signedDistanceBySign
        \<lparr>left = closestPrimitive (- 1) 1 Exact, right = closestPrimitive 1 2 Exact,
         operation = None_op, box = unitBox\<rparr> exampleSphere (stubInteraction 0 [])))
      = \<lparr>d = 1, sign = - 1, n = [1, 0], distanceInfo = Exact\<rparr>"
proof -
  have a: "prim_findClosestPoint (closestPrimitive (- 1) 1 Exact) exampleSphere
      = (True, exampleSphere, \<lparr>d = 1, sign = - 1, n = [1, 0], distanceInfo = Exact\<rparr>)"
    by (simp add: closestPrimitive_def stubPrimitive_def)
  have b: "prim_findClosestPoint (closestPrimitive 1 2 Exact) exampleSphere
      = (True, exampleSphere, \<lparr>d = 2, sign = 1, n = [1, 0], distanceInfo = Exact\<rparr>)"
    by (simp add: closestPrimitive_def stubPrimitive_def)
  have b': "prim_findClosestPoint (closestPrimitive 1 (1 / 2) Exact) exampleSphere
      = (True, exampleSphere, \<lparr>d = 1 / 2, sign = 1, n = [1, 0], distanceInfo = Exact\<rparr>)"
    by (simp add: closestPrimitive_def stubPrimitive_def)
  have t: "(\<lambda>(b::bounding_box) (s::bounding_sphere). True) unitBox exampleSphere"
    by simp
  note main = C4_selection [where boxOverlaps = "\<lambda>b s. True" and bx = unitBox
      and signedDistance = signedDistanceBySign and i = "stubInteraction 0 []", OF t a b]
  note diff = C4_selection [where boxOverlaps = "\<lambda>b s. True" and bx = unitBox
      and signedDistance = signedDistanceBySign and i = "stubInteraction 0 []", OF t a b']
  note eval = findClosestPoint_def selectInteraction_def shrinkR2_def std_min_def
    closestPrimitive_def stubPrimitive_def signedDistanceBySign_def exampleSphere_def
    flipNormal_def
  have u: "snd (snd (findClosestPoint (\<lambda>b s. True) signedDistanceBySign
        \<lparr>left = closestPrimitive (- 1) 1 Exact, right = closestPrimitive 1 2 Exact,
         operation = Union_op, box = unitBox\<rparr> exampleSphere (stubInteraction 0 [])))
      = \<lparr>d = 1, sign = - 1, n = [1, 0], distanceInfo = Bounded\<rparr>"
    by (simp add: eval)
  have i: "snd (snd (findClosestPoint (\<lambda>b s. True) signedDistanceBySign
        \<lparr>left = closestPrimitive (- 1) 1 Exact, right = closestPrimitive 1 2 Exact,
         operation = Intersection, box = unitBox\<rparr> exampleSphere (stubInteraction 0 [])))
      = \<lparr>d = 2, sign = 1, n = [1, 0], distanceInfo = Bounded\<rparr>"
    by (simp add: eval)
  have dd: "snd (snd (findClosestPoint (\<lambda>b s. True) signedDistanceBySign
        \<lparr>left = closestPrimitive (- 1) 1 Exact, right = closestPrimitive 1 (1 / 2) Exact,
         operation = Difference, box = unitBox\<rparr> exampleSphere (stubInteraction 0 [])))
      = \<lparr>d = 1 / 2, sign = - 1, n = [- 1, 0], distanceInfo = Exact\<rparr>"
    by (simp add: eval)
  have nn: "snd (snd (findClosestPoint (\<lambda>b s. True) signedDistanceBySign
        \<lparr>left = closestPrimitive (- 1) 1 Exact, right = closestPrimitive 1 2 Exact,
         operation = None_op, box = unitBox\<rparr> exampleSphere (stubInteraction 0 [])))
      = \<lparr>d = 1, sign = - 1, n = [1, 0], distanceInfo = Exact\<rparr>"
    by (simp add: eval)
  from main diff a b u i dd nn show ?thesis by (intro conjI)
qed

text \<open>
  C5. The claim: the early exits and one-sided paths of \<open>intersect\<close> return as
  \<open>intersect_early_exits\<close> states, and every miss is reported as a zero count. The code at
  a miss that is not an early exit: the interval from 2 to 3 minus the interval from 1 to
  4 is empty, both children report crossings, and with \<open>countHits\<close> unset line 190 reads
  \<^verbatim>\<open>is[0]\<close> of the empty list instead of returning 0.
\<close>

theorem C5_miss_reads_out_of_range:
  "intersect (\<lambda>b r. True)
      \<lparr>left = intervalPrimitive 2 3, right = intervalPrimitive 1 4, operation = Difference,
       box = unitBox\<rparr> exampleRay False False = Inl OutOfRange"
  by (simp add: intersect_def shrinkTMax_def intervalPrimitive_def stubPrimitive_def
      stubInteraction_def computeInteractions_def computeInteractions_loop.simps
      addInteraction_def)



text \<open>
  C7. If each child returns its crossings sorted by ascending distance, then the list a
  returning call of \<open>intersect\<close> hands back is sorted by ascending distance, whatever the
  operation and the path taken (merge for None, parity merge for the three boolean
  operations, a copy of one side, or an early return).
\<close>

theorem C7_intersect_sorted:
  assumes "prim_intersect (left node) r False True = (hitsLeft, rLeft, isLeft)"
    and "prim_intersect (right node) r False True = (hitsRight, rRight, isRight)"
    and "sorted (map d isLeft)" and "sorted (map d isRight)"
    and "intersect boxIntersect node r checkOcclusion countHits = Inr (hits, r', out)"
  shows "sorted (map d out)"
  using assms by (rule intersect_result_sorted)

theorem C7_intersect_sorted_witness:
  "sorted (map d [stubInteraction 1 [- 1, 0], stubInteraction 4 [1, 0]])
   \<and> sorted (map d [stubInteraction 2 [- 1, 0], stubInteraction 5 [1, 0]])
   \<and> intersect (\<lambda>b r. True)
      \<lparr>left = intervalPrimitive 1 4, right = intervalPrimitive 2 5, operation = Difference,
       box = unitBox\<rparr> exampleRay False False
     = Inr (2, exampleRay\<lparr>tMax := 1\<rparr>,
            [stubInteraction 1 [- 1, 0], stubInteraction 2 [1, 0]])
   \<and> sorted (map d [stubInteraction 1 [- 1, 0], stubInteraction 2 [1, 0]])"
proof -
  let ?node = "\<lparr>left = intervalPrimitive 1 4, right = intervalPrimitive 2 5,
      operation = Difference, box = unitBox\<rparr>"
  have l: "prim_intersect (left ?node) exampleRay False True
      = (2, exampleRay, [stubInteraction 1 [- 1, 0], stubInteraction 4 [1, 0]])"
    by (simp add: intervalPrimitive_def stubPrimitive_def)
  have r: "prim_intersect (right ?node) exampleRay False True
      = (2, exampleRay, [stubInteraction 2 [- 1, 0], stubInteraction 5 [1, 0]])"
    by (simp add: intervalPrimitive_def stubPrimitive_def)
  have sl: "sorted (map d [stubInteraction 1 [- 1, 0], stubInteraction 4 [1, 0]])"
    by (simp add: stubInteraction_def)
  have sr: "sorted (map d [stubInteraction 2 [- 1, 0], stubInteraction 5 [1, 0]])"
    by (simp add: stubInteraction_def)
  have run: "intersect (\<lambda>b r. True) ?node exampleRay False False
      = Inr (2, exampleRay\<lparr>tMax := 1\<rparr>,
             [stubInteraction 1 [- 1, 0], stubInteraction 2 [1, 0]])"
    by (simp add: intersect_def shrinkTMax_def intervalPrimitive_def stubPrimitive_def
        stubInteraction_def computeInteractions_def computeInteractions_loop.simps
        addInteraction_def flipNormal_def)
  from C7_intersect_sorted [OF l r sl sr run] sl sr run show ?thesis by simp
qed

text \<open>
  C8. Whatever path \<open>findClosestPoint\<close> takes, the sphere's \<open>r2\<close> after the call is at
  most \<open>r2\<close> before it and nothing else of the sphere changes; when the call returns true,
  \<open>r2\<close> is the minimum of its previous value and the squared distance of the reported
  interaction; when it returns false, sphere and interaction are untouched.
\<close>

theorem C8_sphere_monotone:
  assumes "findClosestPoint boxOverlaps signedDistance node s i = (found, s', i')"
  shows "r2 s' \<le> r2 s \<and> s' = s\<lparr>r2 := r2 s'\<rparr>
    \<and> (found \<longrightarrow> r2 s' = min (r2 s) (d i' * d i'))
    \<and> (\<not> found \<longrightarrow> s' = s \<and> i' = i)"
  using findClosestPoint_shape [OF assms] by (auto simp: shrinkR2_def std_min_eq_min)

theorem C8_sphere_monotone_witness:
  "findClosestPoint (\<lambda>b s. True) signedDistanceBySign
      \<lparr>left = closestPrimitive (- 1) 1 Exact, right = closestPrimitive 1 2 Exact,
       operation = Difference, box = unitBox\<rparr> exampleSphere (stubInteraction 0 [])
     = (True, exampleSphere\<lparr>r2 := 1\<rparr>,
        \<lparr>d = 1, sign = - 1, n = [1, 0], distanceInfo = Exact\<rparr>)
   \<and> r2 (exampleSphere\<lparr>r2 := 1\<rparr>) \<le> r2 exampleSphere
   \<and> r2 (exampleSphere\<lparr>r2 := 1\<rparr>) = min (r2 exampleSphere) (1 * 1)
   \<and> findClosestPoint (\<lambda>b s. True) signedDistanceBySign
      \<lparr>left = stubPrimitive unitBox 1 [] False (stubInteraction 0 []),
       right = closestPrimitive 1 2 Exact,
       operation = Intersection, box = unitBox\<rparr> exampleSphere (stubInteraction 7 [])
     = (False, exampleSphere, stubInteraction 7 [])"
proof -
  have found: "findClosestPoint (\<lambda>b s. True) signedDistanceBySign
      \<lparr>left = closestPrimitive (- 1) 1 Exact, right = closestPrimitive 1 2 Exact,
       operation = Difference, box = unitBox\<rparr> exampleSphere (stubInteraction 0 [])
     = (True, exampleSphere\<lparr>r2 := 1\<rparr>,
        \<lparr>d = 1, sign = - 1, n = [1, 0], distanceInfo = Exact\<rparr>)"
    by (simp add: findClosestPoint_def selectInteraction_def shrinkR2_def std_min_def
        closestPrimitive_def stubPrimitive_def signedDistanceBySign_def exampleSphere_def)
  have missed: "findClosestPoint (\<lambda>b s. True) signedDistanceBySign
      \<lparr>left = stubPrimitive unitBox 1 [] False (stubInteraction 0 []),
       right = closestPrimitive 1 2 Exact,
       operation = Intersection, box = unitBox\<rparr> exampleSphere (stubInteraction 7 [])
     = (False, exampleSphere, stubInteraction 7 [])"
    by (simp add: findClosestPoint_def stubPrimitive_def)
  from C8_sphere_monotone [OF found] C8_sphere_monotone [OF missed] found missed
  show ?thesis by simp
qed

text \<open>
  C9. A returning call of \<open>intersect\<close> hands back the caller's ray changed in \<open>tMax\<close> at
  most (the node is a read-only argument of the call): with \<open>countHits\<close> set the ray is
  unchanged; with \<open>countHits\<close> unset and at least one hit, \<open>tMax\<close> is the distance of the
  first crossing of the returned list, which is the nearest one when the children return
  sorted lists; with no hit the ray is unchanged.
\<close>

theorem C9_intersect_frame:
  assumes "prim_intersect (left node) r False True = (hitsLeft, rLeft, isLeft)"
    and "prim_intersect (right node) r False True = (hitsRight, rRight, isRight)"
    and "sorted (map d isLeft)" and "sorted (map d isRight)"
    and "intersect boxIntersect node r checkOcclusion countHits = Inr (hits, r', out)"
  shows "r' = r\<lparr>tMax := tMax r'\<rparr>
    \<and> (countHits \<longrightarrow> r' = r)
    \<and> (\<not> countHits \<and> 0 < hits \<longrightarrow>
          r' = r\<lparr>tMax := d (hd out)\<rparr> \<and> (\<forall>x\<in>set out. d (hd out) \<le> d x))
    \<and> (hits = 0 \<longrightarrow> r' = r)"
proof -
  have s: "sorted (map d out)" using assms by (rule intersect_result_sorted)
  have f: "hits = int (length out)"
      "r' = (if countHits \<or> out = [] then r else r\<lparr>tMax := d (hd out)\<rparr>)"
    using intersect_result_ray [OF assms(1,2,5)] by blast+
  show ?thesis using f s by (auto simp: sorted_hd_least)
qed

theorem C9_intersect_frame_witness:
  "intersect (\<lambda>b r. True)
      \<lparr>left = intervalPrimitive 1 4, right = intervalPrimitive 2 5, operation = Difference,
       box = unitBox\<rparr> exampleRay False False
     = Inr (2, exampleRay\<lparr>tMax := 1\<rparr>,
            [stubInteraction 1 [- 1, 0], stubInteraction 2 [1, 0]])
   \<and> d (hd [stubInteraction 1 [- 1, 0], stubInteraction 2 [1, 0]]) = 1
   \<and> intersect (\<lambda>b r. True)
      \<lparr>left = intervalPrimitive 1 4, right = intervalPrimitive 2 5, operation = Difference,
       box = unitBox\<rparr> exampleRay False True
     = Inr (2, exampleRay, [stubInteraction 1 [- 1, 0], stubInteraction 2 [1, 0]])
   \<and> intersect (\<lambda>b r. False)
      \<lparr>left = intervalPrimitive 1 4, right = intervalPrimitive 2 5, operation = Difference,
       box = unitBox\<rparr> exampleRay False False
     = Inr (0, exampleRay, [])"
proof -
  let ?node = "\<lparr>left = intervalPrimitive 1 4, right = intervalPrimitive 2 5,
      operation = Difference, box = unitBox\<rparr>"
  have l: "prim_intersect (left ?node) exampleRay False True
      = (2, exampleRay, [stubInteraction 1 [- 1, 0], stubInteraction 4 [1, 0]])"
    by (simp add: intervalPrimitive_def stubPrimitive_def)
  have r: "prim_intersect (right ?node) exampleRay False True
      = (2, exampleRay, [stubInteraction 2 [- 1, 0], stubInteraction 5 [1, 0]])"
    by (simp add: intervalPrimitive_def stubPrimitive_def)
  have sl: "sorted (map d [stubInteraction 1 [- 1, 0], stubInteraction 4 [1, 0]])"
    by (simp add: stubInteraction_def)
  have sr: "sorted (map d [stubInteraction 2 [- 1, 0], stubInteraction 5 [1, 0]])"
    by (simp add: stubInteraction_def)
  note eval = intersect_def shrinkTMax_def intervalPrimitive_def stubPrimitive_def
    stubInteraction_def computeInteractions_def computeInteractions_loop.simps
    addInteraction_def flipNormal_def
  have nearest: "intersect (\<lambda>b r. True) ?node exampleRay False False
      = Inr (2, exampleRay\<lparr>tMax := 1\<rparr>,
             [stubInteraction 1 [- 1, 0], stubInteraction 2 [1, 0]])"
    by (simp add: eval)
  have counting: "intersect (\<lambda>b r. True) ?node exampleRay False True
      = Inr (2, exampleRay, [stubInteraction 1 [- 1, 0], stubInteraction 2 [1, 0]])"
    by (simp add: eval)
  have missed: "intersect (\<lambda>b r. False) ?node exampleRay False False
      = Inr (0, exampleRay, [])"
    by (simp add: intersect_def)
  from C9_intersect_frame [OF l r sl sr nearest] C9_intersect_frame [OF l r sl sr counting]
    C9_intersect_frame [OF l r sl sr missed] nearest counting missed
  show ?thesis by (simp add: stubInteraction_def)
qed

text \<open>
  C10, as amended. \<open>signedVolume\<close> replaces a box volume of 0 by \<^verbatim>\<open>maxFloat\<close> and returns
  the minimum of that box volume and the children's term: the smaller of the children's
  signed volumes for Intersection, the left child's for Difference, the sum of both for
  Union and None. A zero-volume box therefore never makes the result zero by itself: the
  result is zero only when the children's term is zero, and at a zero-volume box it is
  the children's term itself as long as that term is at most \<^verbatim>\<open>maxFloat\<close>.
\<close>

theorem C10_signedVolume_amended:
  "signedVolume volume node =
     min (if volume (box node) = 0 then maxFloat else volume (box node))
       (case operation node of
          Intersection \<Rightarrow> min (prim_signedVolume (left node)) (prim_signedVolume (right node))
        | Difference \<Rightarrow> prim_signedVolume (left node)
        | Union_op \<Rightarrow> prim_signedVolume (left node) + prim_signedVolume (right node)
        | None_op \<Rightarrow> prim_signedVolume (left node) + prim_signedVolume (right node))
   \<and> (signedVolume volume node = 0 \<longrightarrow>
        (case operation node of
          Intersection \<Rightarrow> min (prim_signedVolume (left node)) (prim_signedVolume (right node))
        | Difference \<Rightarrow> prim_signedVolume (left node)
        | Union_op \<Rightarrow> prim_signedVolume (left node) + prim_signedVolume (right node)
        | None_op \<Rightarrow> prim_signedVolume (left node) + prim_signedVolume (right node)) = 0)
   \<and> (volume (box node) = 0 \<and>
        (case operation node of
          Intersection \<Rightarrow> min (prim_signedVolume (left node)) (prim_signedVolume (right node))
        | Difference \<Rightarrow> prim_signedVolume (left node)
        | Union_op \<Rightarrow> prim_signedVolume (left node) + prim_signedVolume (right node)
        | None_op \<Rightarrow> prim_signedVolume (left node) + prim_signedVolume (right node))
          \<le> maxFloat
      \<longrightarrow> signedVolume volume node =
        (case operation node of
          Intersection \<Rightarrow> min (prim_signedVolume (left node)) (prim_signedVolume (right node))
        | Difference \<Rightarrow> prim_signedVolume (left node)
        | Union_op \<Rightarrow> prim_signedVolume (left node) + prim_signedVolume (right node)
        | None_op \<Rightarrow> prim_signedVolume (left node) + prim_signedVolume (right node)))"
proof -
  let ?boxVolume = "if volume (box node) = 0 then maxFloat else volume (box node)"
  let ?children = "case operation node of
          Intersection \<Rightarrow> min (prim_signedVolume (left node)) (prim_signedVolume (right node))
        | Difference \<Rightarrow> prim_signedVolume (left node)
        | Union_op \<Rightarrow> prim_signedVolume (left node) + prim_signedVolume (right node)
        | None_op \<Rightarrow> prim_signedVolume (left node) + prim_signedVolume (right node)"
  have nz: "?boxVolume \<noteq> 0" by (simp add: maxFloat_def)
  have formula: "signedVolume volume node = min ?boxVolume ?children"
    by (cases "operation node") (simp_all add: signedVolume_def std_min_eq_min)
  have zero: "?children = 0" if "signedVolume volume node = 0"
    using that nz unfolding formula min_def by (simp split: if_splits)
  have unlimited: "signedVolume volume node = ?children"
    if "volume (box node) = 0 \<and> ?children \<le> maxFloat"
    using that unfolding formula by (simp add: min_def)
  from formula zero unlimited show ?thesis by blast
qed

theorem C10_signedVolume_amended_witness:
  "signedVolume (\<lambda>b. 0)
      \<lparr>left = solidPrimitive unitBox 1, right = solidPrimitive unitBox 1,
       operation = Union_op, box = unitBox\<rparr> = 2
   \<and> (2::real) \<le> maxFloat
   \<and> signedVolume (\<lambda>b. 5)
      \<lparr>left = solidPrimitive unitBox 3, right = solidPrimitive unitBox (- 3),
       operation = Union_op, box = unitBox\<rparr> = 0
   \<and> prim_signedVolume (solidPrimitive unitBox 3)
        + prim_signedVolume (solidPrimitive unitBox (- 3)) = 0"
proof -
  have m: "(2::real) \<le> maxFloat" by (simp add: maxFloat_def)
  have two: "signedVolume (\<lambda>b. 0)
      \<lparr>left = solidPrimitive unitBox 1, right = solidPrimitive unitBox 1,
       operation = Union_op, box = unitBox\<rparr> = 2"
    using m by (simp add: signedVolume_def std_min_def solidPrimitive_def stubPrimitive_def)
  have zero: "signedVolume (\<lambda>b. 5)
      \<lparr>left = solidPrimitive unitBox 3, right = solidPrimitive unitBox (- 3),
       operation = Union_op, box = unitBox\<rparr> = 0"
    by (simp add: signedVolume_def std_min_def solidPrimitive_def stubPrimitive_def)
  from C10_signedVolume_amended [of "\<lambda>b. 0" "\<lparr>left = solidPrimitive unitBox 1,
        right = solidPrimitive unitBox 1, operation = Union_op, box = unitBox\<rparr>"]
    C10_signedVolume_amended [of "\<lambda>b. 5" "\<lparr>left = solidPrimitive unitBox 3,
        right = solidPrimitive unitBox (- 3), operation = Union_op, box = unitBox\<rparr>"]
    two zero m
  show ?thesis by (simp add: solidPrimitive_def stubPrimitive_def)
qed

text \<open>
  C10 as stated fails in its last part: at a zero-volume box the result is still zero when
  the children's signed volumes are 0 and 0 (Union), and negative when the left child's
  is (Difference, \<open>- 3\<close>).
\<close>

theorem C10_zero_volume_result_counterexample:
  "signedVolume (\<lambda>b. 0)
      \<lparr>left = solidPrimitive unitBox 0, right = solidPrimitive unitBox 0,
       operation = Union_op, box = unitBox\<rparr> = 0
   \<and> signedVolume (\<lambda>b. 0)
      \<lparr>left = solidPrimitive unitBox (- 3), right = solidPrimitive unitBox 1,
       operation = Difference, box = unitBox\<rparr> = - 3"
  by (simp add: signedVolume_def std_min_def solidPrimitive_def stubPrimitive_def
      maxFloat_def)

end
